theory Spec2Isabelle
  imports Complex_Main
begin

section \<open>Conventions of the embedding\<close>

text \<open>
  The trading core is Python. Its \<open>float\<close> values are read as \<^typ>\<open>real\<close> numbers with exact
  arithmetic, so rounding, NaN and the infinities are outside the model. A \<open>datetime\<close> is
  a \<^typ>\<open>real\<close> number of seconds on one UTC time axis, and the difference of two of them
  is what \<open>total_seconds()\<close> returns. A \<open>str\<close> is a \<^typ>\<open>string\<close>; \<open>str.upper()\<close> is
  modelled on the ASCII letters. A raised exception is the left summand of a sum type.
\<close>

datatype py_error = ValueError string

definition upper_char :: "char \<Rightarrow> char" where
  "upper_char c =
     (case map_of (zip ''abcdefghijklmnopqrstuvwxyz'' ''ABCDEFGHIJKLMNOPQRSTUVWXYZ'') c of
        Some u \<Rightarrow> u
      | None \<Rightarrow> c)"

definition upper :: "string \<Rightarrow> string" where
  "upper s = map upper_char s"

text \<open>\<open>int(x)\<close> on a float truncates towards zero.\<close>

definition py_int :: "real \<Rightarrow> int" where
  "py_int x = (if 0 \<le> x then \<lfloor>x\<rfloor> else \<lceil>x\<rceil>)"


section \<open>src/core/position.py\<close>

record Position =
  qty :: real
  cost :: real

definition Position_init :: Position where
  "Position_init = \<lparr>qty = 0, cost = 0\<rparr>"

definition avg_price :: "Position \<Rightarrow> real" where
  "avg_price p = (if qty p = 0 then 0.5 else cost p / qty p)"

definition add_position :: "Position \<Rightarrow> real \<Rightarrow> real \<Rightarrow> Position" where
  "add_position p q price = p\<lparr>cost := cost p + price * q, qty := qty p + q\<rparr>"

record PairPosition =
  yes :: Position
  no :: Position

definition PairPosition_init :: PairPosition where
  "PairPosition_init = \<lparr>yes = Position_init, no = Position_init\<rparr>"

definition total_cost :: "PairPosition \<Rightarrow> real" where
  "total_cost pos = cost (yes pos) + cost (no pos)"

definition min_qty :: "PairPosition \<Rightarrow> real" where
  "min_qty pos = min (qty (yes pos)) (qty (no pos))"

definition pair_cost :: "PairPosition \<Rightarrow> real" where
  "pair_cost pos = avg_price (yes pos) + avg_price (no pos)"

definition is_profitable :: "PairPosition \<Rightarrow> bool" where
  "is_profitable pos = (if min_qty pos = 0 then False else min_qty pos > total_cost pos)"

definition can_buy :: "PairPosition \<Rightarrow> string \<Rightarrow> real \<Rightarrow> real \<Rightarrow> py_error + bool" where
  "can_buy pos side q price =
     (case (if upper side = ''YES'' then Inr (yes pos, avg_price (no pos))
            else if upper side = ''NO'' then Inr (no pos, avg_price (yes pos))
            else Inl (ValueError side)) of
        Inl e \<Rightarrow> Inl e
      | Inr (current_pos, opposite_avg) \<Rightarrow>
          (let new_cost = cost current_pos + price * q;
               new_qty = qty current_pos + q;
               new_avg = (if new_qty > 0 then new_cost / new_qty else price)
           in Inr (new_avg + opposite_avg < 0.98)))"

text \<open>
  The data model keeps quantity and cost of a side non-negative: both start at zero and
  grow by fills of positive quantity at a price in \<open>[0,1]\<close>.
\<close>

definition valid_side :: "Position \<Rightarrow> bool" where
  "valid_side p = (0 \<le> qty p \<and> 0 \<le> cost p)"

definition valid_position :: "PairPosition \<Rightarrow> bool" where
  "valid_position pos = (valid_side (yes pos) \<and> valid_side (no pos))"


section \<open>The order book (src/market/polymarket_api.py, src/market/simulator.py)\<close>

text \<open>
  Both modules declare the same \<open>OrderBook\<close> with the same properties; the one of the API
  client carries a timestamp besides, which none of the functions below reads.
\<close>

record OrderBookLevel =
  level_price :: real
  level_qty :: real

record OrderBook =
  yes_bids :: "OrderBookLevel list"
  yes_asks :: "OrderBookLevel list"
  no_bids :: "OrderBookLevel list"
  no_asks :: "OrderBookLevel list"

definition yes_mid_price :: "OrderBook \<Rightarrow> real" where
  "yes_mid_price ob =
     (if yes_bids ob \<noteq> [] \<and> yes_asks ob \<noteq> []
      then (level_price (hd (yes_bids ob)) + level_price (hd (yes_asks ob))) / 2
      else 0.5)"

definition no_mid_price :: "OrderBook \<Rightarrow> real" where
  "no_mid_price ob =
     (if no_bids ob \<noteq> [] \<and> no_asks ob \<noteq> []
      then (level_price (hd (no_bids ob)) + level_price (hd (no_asks ob))) / 2
      else 0.5)"

definition get_best_ask :: "OrderBook \<Rightarrow> string \<Rightarrow> OrderBookLevel option" where
  "get_best_ask ob side =
     (if upper side = ''YES'' then (case yes_asks ob of [] \<Rightarrow> None | l # _ \<Rightarrow> Some l)
      else if upper side = ''NO'' then (case no_asks ob of [] \<Rightarrow> None | l # _ \<Rightarrow> Some l)
      else None)"


section \<open>src/monitor/price_monitor.py\<close>

text \<open>
  The callback is a collaborator outside the core: the model keeps whether one is set and
  the list of calls made to it (side and mid-price), oldest first.
\<close>

record PriceMonitor =
  entry_price_min :: real
  entry_price_max :: real
  has_callback :: bool
  callback_calls :: "(string \<times> real) list"
  last_yes_price :: real
  last_no_price :: real

definition PriceMonitor_init :: "real \<Rightarrow> real \<Rightarrow> bool \<Rightarrow> PriceMonitor" where
  "PriceMonitor_init lo hi cb =
     \<lparr>entry_price_min = lo, entry_price_max = hi, has_callback = cb, callback_calls = [],
      last_yes_price = 0.5, last_no_price = 0.5\<rparr>"

definition run_callback :: "PriceMonitor \<Rightarrow> string \<Rightarrow> real \<Rightarrow> PriceMonitor" where
  "run_callback m side p =
     (if has_callback m then m\<lparr>callback_calls := callback_calls m @ [(side, p)]\<rparr> else m)"

text \<open>
  Each of the two nested \<open>if\<close> pairs of \<open>check_price\<close> returns only when both its tests
  hold and falls through to the next statement otherwise, which is the conjunction below.
\<close>

definition check_price :: "PriceMonitor \<Rightarrow> OrderBook \<Rightarrow> string option \<times> PriceMonitor" where
  "check_price m order_book =
     (let yes_price = yes_mid_price order_book;
          no_price = no_mid_price order_book
      in if (entry_price_min m \<le> yes_price \<and> yes_price \<le> entry_price_max m)
            \<and> (last_yes_price m < entry_price_min m \<or> last_yes_price m > entry_price_max m)
         then (Some ''YES'', run_callback m ''YES'' yes_price)
         else if (entry_price_min m \<le> no_price \<and> no_price \<le> entry_price_max m)
            \<and> (last_no_price m < entry_price_min m \<or> last_no_price m > entry_price_max m)
         then (Some ''NO'', run_callback m ''NO'' no_price)
         else (None, m\<lparr>last_yes_price := yes_price, last_no_price := no_price\<rparr>))"

text \<open>A run of ticks on one monitor: the sides returned, in order, and the final monitor.\<close>

fun check_prices :: "PriceMonitor \<Rightarrow> OrderBook list \<Rightarrow> string option list \<times> PriceMonitor" where
  "check_prices m [] = ([], m)"
| "check_prices m (ob # obs) =
     (let (r, m') = check_price m ob;
          (rs, m'') = check_prices m' obs
      in (r # rs, m''))"

definition in_band :: "PriceMonitor \<Rightarrow> real \<Rightarrow> bool" where
  "in_band m p = (entry_price_min m \<le> p \<and> p \<le> entry_price_max m)"


section \<open>src/execution/order_manager.py\<close>

datatype OrderStatus = PENDING | FILLED | CANCELLED

record Order =
  order_side :: string
  order_price :: real
  order_qty :: real
  status :: OrderStatus
  filled_qty :: real
  filled_price :: real
  timestamp :: real
  is_simulated :: bool

text \<open>
  The API client and the condition id serve one purpose in this module, the fetch of a
  missing snapshot; the outcome of that fetch is an argument of \<open>place_limit_order\<close>.
\<close>

record OrderManager =
  position :: PairPosition
  pending_orders :: "Order list"
  filled_orders :: "Order list"
  current_orderbook :: "OrderBook option"
  trade_history :: "Order list"

definition OrderManager_init :: "PairPosition \<Rightarrow> OrderManager" where
  "OrderManager_init pos =
     \<lparr>position = pos, pending_orders = [], filled_orders = [], current_orderbook = None,
      trade_history = []\<rparr>"

definition update_orderbook :: "OrderManager \<Rightarrow> OrderBook \<Rightarrow> OrderManager" where
  "update_orderbook om orderbook = om\<lparr>current_orderbook := Some orderbook\<rparr>"

text \<open>
  \<open>_try_fill_order\<close> receives the order object that \<open>place_limit_order\<close> has just appended
  to \<open>pending_orders\<close>, and mutates it in place: the list sees the mutation through its last
  element. \<open>order in pending_orders\<close> and \<open>remove\<close> compare dataclass values, and
  \<open>remove\<close> deletes the first equal element.
\<close>

definition try_fill_order :: "OrderManager \<Rightarrow> Order \<Rightarrow> Order \<times> OrderManager" where
  "try_fill_order om order =
     (if status order \<noteq> PENDING then (order, om)
      else case current_orderbook om of
        None \<Rightarrow> (order, om)
      | Some ob \<Rightarrow>
          (case get_best_ask ob (order_side order) of
             None \<Rightarrow> (order, om)
           | Some best_ask \<Rightarrow>
               if order_price order \<ge> level_price best_ask then
                 (let order' = order\<lparr>status := FILLED,
                                     filled_qty := min (order_qty order) (level_qty best_ask),
                                     filled_price := level_price best_ask\<rparr>;
                      pos = position om;
                      pos' = (if order_side order' = ''YES''
                              then pos\<lparr>yes := add_position (yes pos) (filled_qty order') (filled_price order')\<rparr>
                              else pos\<lparr>no := add_position (no pos) (filled_qty order') (filled_price order')\<rparr>);
                      pending = butlast (pending_orders om) @ [order'];
                      pending' = (if order' \<in> set pending then remove1 order' pending else pending)
                  in (order', om\<lparr>position := pos', pending_orders := pending',
                                  filled_orders := filled_orders om @ [order'],
                                  trade_history := trade_history om @ [order']\<rparr>))
               else (order, om)))"

definition place_limit_order ::
  "OrderManager \<Rightarrow> OrderBook option \<Rightarrow> real \<Rightarrow> string \<Rightarrow> real \<Rightarrow> real
     \<Rightarrow> (py_error + Order option) \<times> OrderManager" where
  "place_limit_order om fetched now side q max_price =
     (let om1 = (if current_orderbook om = None then om\<lparr>current_orderbook := fetched\<rparr> else om)
      in case current_orderbook om1 of
        None \<Rightarrow> (Inr None, om1)
      | Some ob \<Rightarrow>
          (case get_best_ask ob side of
             None \<Rightarrow> (Inr None, om1)
           | Some best_ask \<Rightarrow>
               if max_price < level_price best_ask then (Inr None, om1)
               else
                 (let target_price = level_price best_ask;
                      order = \<lparr>order_side = side, order_price = target_price, order_qty = q,
                               status = PENDING, filled_qty = 0, filled_price = 0,
                               timestamp = now, is_simulated = True\<rparr>;
                      om2 = om1\<lparr>pending_orders := pending_orders om1 @ [order]\<rparr>;
                      (order', om3) = try_fill_order om2 order
                  in (Inr (Some order'), om3))))"

definition calculate_target_price :: "OrderManager \<Rightarrow> string \<Rightarrow> real \<Rightarrow> real" where
  "calculate_target_price om side opposite_avg =
     (let current_pos = (if side = ''YES'' then yes (position om) else no (position om));
          max_new_avg = 0.98 - opposite_avg
      in if qty current_pos = 0 then max_new_avg else max_new_avg * 0.95)"

text \<open>The side of the ledger that \<open>calculate_target_price\<close> reads for a side argument.\<close>

definition target_side_position :: "OrderManager \<Rightarrow> string \<Rightarrow> Position" where
  "target_side_position om side = (if side = ''YES'' then yes (position om) else no (position om))"


section \<open>config.py\<close>

definition MAX_TOTAL_CAPITAL :: real where "MAX_TOTAL_CAPITAL = 1000"
definition MAX_POS_PER_WINDOW :: real where "MAX_POS_PER_WINDOW = 300"
definition MAX_UNHEDGED_SEC :: int where "MAX_UNHEDGED_SEC = 120"
definition MAX_PAIR_COST :: real where "MAX_PAIR_COST = 0.98"
definition MAX_LOSS_RATIO :: real where "MAX_LOSS_RATIO = 0.1"
definition SETTLEMENT_BUFFER_SECONDS :: int where "SETTLEMENT_BUFFER_SECONDS = 60"
definition PAIR_COST_CHECK_DELAY_SECONDS :: int where "PAIR_COST_CHECK_DELAY_SECONDS = 60"


section \<open>src/risk/stop_conditions.py\<close>

text \<open>
  The reason of a result is an f-string around numbers of the call; the model keeps which
  message it is and the numbers it prints (the text and the rounding of the formats are
  not modelled). The details dictionary is an association list in insertion order.
\<close>

datatype reason_text =
    Reason_profit_locked
  | Reason_unhedged_timeout int int
  | Reason_pair_cost_too_high real real
  | Reason_max_capital_exceeded real real
  | Reason_max_pos_exceeded string real real
  | Reason_settlement_time_near int int
  | Reason_all_checks_passed

datatype detail_value = DStr string | DNum real | DInt int | DBool bool

record StopConditionResult =
  should_stop :: bool
  reason :: reason_text
  details :: "(string \<times> detail_value) list"

record RiskController =
  max_total_capital :: real
  max_pos_per_window :: real
  max_unhedged_seconds :: int
  max_pair_cost :: real
  max_loss_ratio :: real
  settlement_buffer_seconds :: int
  pair_cost_check_delay_seconds :: int
  unhedged_start_time :: "real option"
  last_unhedged_side :: "string option"

definition RiskController_init ::
  "real \<Rightarrow> real \<Rightarrow> int \<Rightarrow> real \<Rightarrow> real \<Rightarrow> int \<Rightarrow> int \<Rightarrow> RiskController" where
  "RiskController_init total_capital pos_per_window unhedged_seconds pair_cost_cap loss_ratio
       buffer_seconds check_delay_seconds =
     \<lparr>max_total_capital = total_capital, max_pos_per_window = pos_per_window,
      max_unhedged_seconds = unhedged_seconds, max_pair_cost = pair_cost_cap,
      max_loss_ratio = loss_ratio, settlement_buffer_seconds = buffer_seconds,
      pair_cost_check_delay_seconds = check_delay_seconds,
      unhedged_start_time = None, last_unhedged_side = None\<rparr>"

text \<open>\<open>RiskController()\<close>: every argument left to the default of the signature.\<close>

definition RiskController_default :: RiskController where
  "RiskController_default = RiskController_init 1000 200 120 0.98 0.1 60 60"

text \<open>The controller as dashboard.py builds it, every argument taken from \<open>Config\<close>.\<close>

definition RiskController_of_Config :: RiskController where
  "RiskController_of_Config =
     RiskController_init MAX_TOTAL_CAPITAL MAX_POS_PER_WINDOW MAX_UNHEDGED_SEC MAX_PAIR_COST
       MAX_LOSS_RATIO SETTLEMENT_BUFFER_SECONDS PAIR_COST_CHECK_DELAY_SECONDS"

definition reset :: "RiskController \<Rightarrow> RiskController" where
  "reset rc = rc\<lparr>unhedged_start_time := None, last_unhedged_side := None\<rparr>"

text \<open>
  One call reads the clock up to three times: when it starts the unhedged clock, when it
  measures the unhedged duration, and when it measures the time left to settlement.
\<close>

record clock_reads =
  now_restart :: real
  now_elapsed :: real
  now_settlement :: real

definition profit_locked_result :: "PairPosition \<Rightarrow> StopConditionResult" where
  "profit_locked_result pos =
     \<lparr>should_stop = True, reason = Reason_profit_locked,
      details = [(''type'', DStr ''profit_locked''), (''min_qty'', DNum (min_qty pos)),
                 (''total_cost'', DNum (total_cost pos)),
                 (''profit'', DNum (min_qty pos - total_cost pos))]\<rparr>"

definition unhedged_timeout_result :: "string \<Rightarrow> real \<Rightarrow> int \<Rightarrow> StopConditionResult" where
  "unhedged_timeout_result current_side unhedged_duration limit =
     \<lparr>should_stop = True, reason = Reason_unhedged_timeout (py_int unhedged_duration) limit,
      details = [(''type'', DStr ''unhedged_timeout''), (''side'', DStr current_side),
                 (''duration_seconds'', DNum unhedged_duration), (''max_allowed'', DInt limit)]\<rparr>"

definition pair_cost_result :: "PairPosition \<Rightarrow> real \<Rightarrow> StopConditionResult" where
  "pair_cost_result pos limit =
     \<lparr>should_stop = True,
      reason = Reason_pair_cost_too_high (avg_price (yes pos) + avg_price (no pos)) limit,
      details = [(''type'', DStr ''pair_cost_too_high''),
                 (''pair_cost'', DNum (avg_price (yes pos) + avg_price (no pos))),
                 (''max_allowed'', DNum limit), (''yes_avg'', DNum (avg_price (yes pos))),
                 (''no_avg'', DNum (avg_price (no pos))), (''is_hedged'', DBool True)]\<rparr>"

definition max_capital_result :: "PairPosition \<Rightarrow> real \<Rightarrow> StopConditionResult" where
  "max_capital_result pos limit =
     \<lparr>should_stop = True, reason = Reason_max_capital_exceeded (total_cost pos) limit,
      details = [(''type'', DStr ''max_capital_exceeded''), (''total_cost'', DNum (total_cost pos)),
                 (''max_allowed'', DNum limit)]\<rparr>"

definition max_pos_result :: "string \<Rightarrow> real \<Rightarrow> real \<Rightarrow> StopConditionResult" where
  "max_pos_result side c limit =
     \<lparr>should_stop = True, reason = Reason_max_pos_exceeded side c limit,
      details = [(''type'', DStr ''max_pos_exceeded''), (''side'', DStr side), (''cost'', DNum c),
                 (''max_allowed'', DNum limit)]\<rparr>"

definition settlement_result :: "real \<Rightarrow> int \<Rightarrow> StopConditionResult" where
  "settlement_result time_to_settlement buffer =
     \<lparr>should_stop = True, reason = Reason_settlement_time_near (py_int time_to_settlement) buffer,
      details = [(''type'', DStr ''settlement_time_near''),
                 (''time_to_settlement'', DNum time_to_settlement),
                 (''buffer_seconds'', DInt buffer)]\<rparr>"

definition continue_result :: StopConditionResult where
  "continue_result = \<lparr>should_stop = False, reason = Reason_all_checks_passed, details = []\<rparr>"

text \<open>Checks 3, 4 and 5 of \<open>check_stop_conditions\<close>, which read no clock field.\<close>

definition capital_and_settlement_checks ::
  "RiskController \<Rightarrow> PairPosition \<Rightarrow> real option \<Rightarrow> clock_reads \<Rightarrow> StopConditionResult" where
  "capital_and_settlement_checks rc pos market_end_time clk =
     (if total_cost pos > max_total_capital rc
        then max_capital_result pos (max_total_capital rc)
      else if cost (yes pos) > max_pos_per_window rc
        then max_pos_result ''YES'' (cost (yes pos)) (max_pos_per_window rc)
      else if cost (no pos) > max_pos_per_window rc
        then max_pos_result ''NO'' (cost (no pos)) (max_pos_per_window rc)
      else case market_end_time of
        None \<Rightarrow> continue_result
      | Some end_time \<Rightarrow>
          (let time_to_settlement = end_time - now_settlement clk
           in if time_to_settlement \<le> of_int (settlement_buffer_seconds rc)
              then settlement_result time_to_settlement (settlement_buffer_seconds rc)
              else continue_result))"

text \<open>Step 2 of \<open>check_stop_conditions\<close> on an unhedged position: the update of the clock.\<close>

definition update_unhedged_clock :: "RiskController \<Rightarrow> string \<Rightarrow> clock_reads \<Rightarrow> RiskController" where
  "update_unhedged_clock rc current_side clk =
     (if last_unhedged_side rc \<noteq> Some current_side
        then rc\<lparr>unhedged_start_time := Some (now_restart clk),
                last_unhedged_side := Some current_side\<rparr>
      else if unhedged_start_time rc = None
        then rc\<lparr>unhedged_start_time := Some (now_restart clk)\<rparr>
      else rc)"

definition check_stop_conditions ::
  "RiskController \<Rightarrow> PairPosition \<Rightarrow> OrderBook option \<Rightarrow> real option \<Rightarrow> clock_reads
     \<Rightarrow> StopConditionResult \<times> RiskController" where
  "check_stop_conditions rc pos orderbook market_end_time clk =
     (if is_profitable pos then (profit_locked_result pos, rc)
      else
        (let has_yes = qty (yes pos) > 0;
             has_no = qty (no pos) > 0;
             is_unhedged = ((has_yes \<and> \<not> has_no) \<or> (has_no \<and> \<not> has_yes))
         in if is_unhedged then
              (let current_side = (if has_yes then ''YES'' else ''NO'');
                   rc1 = update_unhedged_clock rc current_side clk
               in case unhedged_start_time rc1 of
                    None \<Rightarrow> (capital_and_settlement_checks rc1 pos market_end_time clk, rc1)
                  | Some start \<Rightarrow>
                      (let unhedged_duration = now_elapsed clk - start
                       in if unhedged_duration > of_int (max_unhedged_seconds rc1)
                          then (unhedged_timeout_result current_side unhedged_duration
                                  (max_unhedged_seconds rc1), rc1)
                          else (capital_and_settlement_checks rc1 pos market_end_time clk, rc1)))
            else
              (let rc1 = rc\<lparr>unhedged_start_time := None, last_unhedged_side := None\<rparr>
               in if orderbook \<noteq> None \<and> has_yes \<and> has_no
                     \<and> avg_price (yes pos) + avg_price (no pos) > max_pair_cost rc1
                  then (pair_cost_result pos (max_pair_cost rc1), rc1)
                  else (capital_and_settlement_checks rc1 pos market_end_time clk, rc1))))"

text \<open>The side on which a position is unhedged, as step 2 computes it.\<close>

definition unhedged_side :: "PairPosition \<Rightarrow> string option" where
  "unhedged_side pos =
     (if qty (yes pos) > 0 \<and> \<not> qty (no pos) > 0 then Some ''YES''
      else if qty (no pos) > 0 \<and> \<not> qty (yes pos) > 0 then Some ''NO''
      else None)"


section \<open>Example inputs\<close>

text \<open>An order book with one level of 100 units in each of its four queues.\<close>

definition quote_book :: "real \<Rightarrow> real \<Rightarrow> real \<Rightarrow> real \<Rightarrow> OrderBook" where
  "quote_book yb ya nb na =
     \<lparr>yes_bids = [\<lparr>level_price = yb, level_qty = 100\<rparr>],
      yes_asks = [\<lparr>level_price = ya, level_qty = 100\<rparr>],
      no_bids = [\<lparr>level_price = nb, level_qty = 100\<rparr>],
      no_asks = [\<lparr>level_price = na, level_qty = 100\<rparr>]\<rparr>"

definition ledger :: "real \<Rightarrow> real \<Rightarrow> real \<Rightarrow> real \<Rightarrow> PairPosition" where
  "ledger yq yc nq nc = \<lparr>yes = \<lparr>qty = yq, cost = yc\<rparr>, no = \<lparr>qty = nq, cost = nc\<rparr>\<rparr>"

definition clock_at :: "real \<Rightarrow> clock_reads" where
  "clock_at t = \<lparr>now_restart = t, now_elapsed = t, now_settlement = t\<rparr>"


section \<open>Admission control\<close>

text \<open>
  Claim C5. For a side that normalises to YES or NO, a quantity \<open>q > 0\<close> and any price,
  on a ledger with non-negative quantities, \<open>can_buy\<close> returns false exactly when the
  average of that side after the fill, plus the current average of the opposite side, is
  greater than or equal to 0.98, and true otherwise; the average of an empty opposite side
  is 0.5.
\<close>

theorem can_buy_strict_boundary:
  assumes "0 < q" and "valid_position pos"
  shows "(upper side = ''YES'' \<longrightarrow>
            can_buy pos side q p
              = Inr (\<not> (avg_price (add_position (yes pos) q p) + avg_price (no pos) \<ge> 0.98)))
       \<and> (upper side = ''NO'' \<longrightarrow>
            can_buy pos side q p
              = Inr (\<not> (avg_price (add_position (no pos) q p) + avg_price (yes pos) \<ge> 0.98)))
       \<and> (qty (no pos) = 0 \<longrightarrow> avg_price (no pos) = 0.5)
       \<and> (qty (yes pos) = 0 \<longrightarrow> avg_price (yes pos) = 0.5)"
proof -
  have y: "0 < qty (yes pos) + q" and n: "0 < qty (no pos) + q"
    using assms by (simp_all add: valid_position_def valid_side_def)
  show ?thesis
    using y n by (auto simp: can_buy_def avg_price_def add_position_def not_le)
qed

theorem can_buy_strict_boundary_witness:
  "can_buy \<lparr>yes = \<lparr>qty = 0, cost = 0\<rparr>, no = \<lparr>qty = 100, cost = 45\<rparr>\<rparr> ''YES'' 100 0.60 = Inr False
   \<and> can_buy \<lparr>yes = \<lparr>qty = 0, cost = 0\<rparr>, no = \<lparr>qty = 100, cost = 45\<rparr>\<rparr> ''no'' 100 0.40 = Inr True"
  using can_buy_strict_boundary
          [of 100 "\<lparr>yes = \<lparr>qty = 0, cost = 0\<rparr>, no = \<lparr>qty = 100, cost = 45\<rparr>\<rparr>" "''YES''" "0.60"]
        can_buy_strict_boundary
          [of 100 "\<lparr>yes = \<lparr>qty = 0, cost = 0\<rparr>, no = \<lparr>qty = 100, cost = 45\<rparr>\<rparr>" "''no''" "0.40"]
  by (simp add: valid_position_def valid_side_def upper_def upper_char_def avg_price_def
        add_position_def)


section \<open>The price band monitor\<close>

text \<open>
  Claim C10. A fresh monitor holds 0.5 as the last mid-price of both sides. A tick that
  returns a side leaves both last mid-prices as they were, and a tick that returns no side
  stores the mid-prices of its order book. Hence the first tick of a fresh monitor whose
  band contains 0.5 returns no side, whatever the order book.
\<close>

theorem fresh_monitor_first_tick:
  "last_yes_price (PriceMonitor_init lo hi cb) = 0.5
   \<and> last_no_price (PriceMonitor_init lo hi cb) = 0.5
   \<and> (fst (check_price m ob) \<noteq> None \<longrightarrow>
         last_yes_price (snd (check_price m ob)) = last_yes_price m
         \<and> last_no_price (snd (check_price m ob)) = last_no_price m)
   \<and> (fst (check_price m ob) = None \<longrightarrow>
         last_yes_price (snd (check_price m ob)) = yes_mid_price ob
         \<and> last_no_price (snd (check_price m ob)) = no_mid_price ob)
   \<and> (lo \<le> 0.5 \<and> 0.5 \<le> hi \<longrightarrow> fst (check_price (PriceMonitor_init lo hi cb) ob) = None)"
  by (simp add: PriceMonitor_init_def check_price_def run_callback_def Let_def)

theorem fresh_monitor_first_tick_witness:
  "fst (check_price (PriceMonitor_init 0.35 0.50 False) (quote_book 0.44 0.46 0.54 0.56)) = None
   \<and> last_yes_price (snd (check_price (PriceMonitor_init 0.35 0.50 False)
                             (quote_book 0.44 0.46 0.54 0.56))) = 0.45"
  using fresh_monitor_first_tick
          [of "0.35" "0.50" False "PriceMonitor_init 0.35 0.50 False"
              "quote_book 0.44 0.46 0.54 0.56"]
  by (simp add: yes_mid_price_def quote_book_def)

text \<open>
  What does hold of every tick: a side is returned only when its mid-price is inside the
  band and the mid-price stored for it is outside.
\<close>

lemma check_price_fires_on_stored_edge:
  "fst (check_price m ob) = Some s \<Longrightarrow>
     (s = ''YES'' \<and> in_band m (yes_mid_price ob) \<and> \<not> in_band m (last_yes_price m))
   \<or> (s = ''NO'' \<and> in_band m (no_mid_price ob) \<and> \<not> in_band m (last_no_price m))"
  by (auto simp: check_price_def in_band_def Let_def split: if_splits)

lemma yes_mid_quote: "yes_mid_price (quote_book yb ya nb na) = (yb + ya) / 2"
  by (simp add: yes_mid_price_def quote_book_def)

lemma no_mid_quote: "no_mid_price (quote_book yb ya nb na) = (nb + na) / 2"
  by (simp add: no_mid_price_def quote_book_def)

text \<open>
  Claim C1 fails on the code. The tick that returns a side leaves before the last
  mid-prices are stored, so the next tick still compares against the mid-price from before
  the entry. With the band \<open>[0.35, 0.50]\<close> and YES mid-prices 0.30, 0.40, 0.40 the monitor
  returns YES on the second tick and again on the third, although the YES mid-price was
  inside the band on the second tick.
\<close>

theorem check_price_retriggers_inside_band:
  "fst (check_prices (PriceMonitor_init 0.35 0.50 False)
          [quote_book 0.29 0.31 0.69 0.71, quote_book 0.39 0.41 0.59 0.61,
           quote_book 0.39 0.41 0.59 0.61])
     = [None, Some ''YES'', Some ''YES'']
   \<and> in_band (PriceMonitor_init 0.35 0.50 False) (yes_mid_price (quote_book 0.39 0.41 0.59 0.61))"
  by (simp add: check_price_def yes_mid_quote no_mid_quote PriceMonitor_init_def
        run_callback_def in_band_def Let_def)


section \<open>The target price\<close>

lemma weighted_avg_below:
  fixes c n p q m :: real
  assumes "0 < n" "0 < q" "c / n \<le> m" "p < m"
  shows "(c + p * q) / (n + q) < m"
proof -
  have "c \<le> m * n" using assms by (simp add: pos_divide_le_eq)
  moreover have "p * q < m * q" using assms by simp
  ultimately have "c + p * q < m * (n + q)" by (simp add: algebra_simps)
  thus ?thesis using assms by (simp add: pos_divide_less_eq)
qed

lemma can_buy_YES_eq:
  assumes "upper side = ''YES''" and "0 < qty (yes pos) + q"
  shows "can_buy pos side q p
           = Inr (avg_price (add_position (yes pos) q p) + avg_price (no pos) < 0.98)"
  using assms by (simp add: can_buy_def avg_price_def add_position_def)

lemma can_buy_NO_eq:
  assumes "upper side = ''NO''" and "0 < qty (no pos) + q"
  shows "can_buy pos side q p
           = Inr (avg_price (add_position (no pos) q p) + avg_price (yes pos) < 0.98)"
  using assms by (auto simp: can_buy_def avg_price_def add_position_def)

lemma upper_YES: "upper ''YES'' = ''YES''"
  by (simp add: upper_def upper_char_def)

lemma upper_NO: "upper ''NO'' = ''NO''"
  by (simp add: upper_def upper_char_def)

text \<open>
  Claim C2 as stated fails: YES holds 100 units bought at 0.45 and the opposite average is
  0.60; the target price is \<open>0.38 * 0.95 = 0.361\<close>, and filling 100 units there gives the
  YES average 0.4055, so the sum 1.0055 is not below 0.98 and \<open>can_buy\<close> rejects the fill.
\<close>

theorem target_price_breaks_admission:
  "\<not> (avg_price (add_position (target_side_position
            (OrderManager_init (ledger 100 45 100 60)) ''YES'') 100
          (calculate_target_price (OrderManager_init (ledger 100 45 100 60)) ''YES'' 0.60))
        + 0.60 < 0.98)
   \<and> can_buy (ledger 100 45 100 60) ''YES'' 100
        (calculate_target_price (OrderManager_init (ledger 100 45 100 60)) ''YES'' 0.60)
      = Inr False"
  by (simp add: calculate_target_price_def target_side_position_def OrderManager_init_def
        ledger_def avg_price_def add_position_def can_buy_def upper_def upper_char_def Let_def)

text \<open>
  Claim C2, amended. For a side that holds a quantity \<open>> 0\<close> and whose current average plus
  the opposite average is at most 0.98, with the opposite average below 0.98, filling any
  positive quantity at the price of \<open>calculate_target_price\<close> leaves the new average of
  the side plus the opposite average strictly below 0.98; when the opposite average is the
  current average of the opposite side of the ledger, \<open>can_buy\<close> accepts that fill.
\<close>

theorem target_price_preserves_admission:
  assumes "0 < qty (target_side_position om side)"
      and "avg_price (target_side_position om side) + opposite_avg \<le> 0.98"
      and "opposite_avg < 0.98"
      and "0 < q"
  shows "avg_price (add_position (target_side_position om side) q
                      (calculate_target_price om side opposite_avg))
           + opposite_avg < 0.98
       \<and> (side = ''YES'' \<and> opposite_avg = avg_price (no (position om)) \<longrightarrow>
            can_buy (position om) side q (calculate_target_price om side opposite_avg) = Inr True)
       \<and> (side = ''NO'' \<and> opposite_avg = avg_price (yes (position om)) \<longrightarrow>
            can_buy (position om) side q (calculate_target_price om side opposite_avg) = Inr True)"
proof -
  define cur where "cur = target_side_position om side"
  define m where "m = 0.98 - opposite_avg"
  have n: "0 < qty cur" and nz: "qty cur \<noteq> 0" using assms(1) by (simp_all add: cur_def)
  have tp: "calculate_target_price om side opposite_avg = m * 0.95"
    using nz
    by (simp add: calculate_target_price_def target_side_position_def Let_def cur_def m_def)
  have mpos: "0 < m" using assms(3) by (simp add: m_def)
  have plt: "m * 0.95 < m" using mpos by simp
  have "avg_price cur = cost cur / qty cur" using nz by (simp add: avg_price_def)
  with assms(2) have avg: "cost cur / qty cur \<le> m" unfolding cur_def m_def by linarith
  have main: "(cost cur + (m * 0.95) * q) / (qty cur + q) < m"
    by (rule weighted_avg_below [OF n assms(4) avg plt])
  have pos: "0 < qty cur + q" using n assms(4) by simp
  hence "avg_price (add_position cur q (m * 0.95)) = (cost cur + (m * 0.95) * q) / (qty cur + q)"
    by (simp add: avg_price_def add_position_def)
  with main have below: "avg_price (add_position cur q (m * 0.95)) + opposite_avg < 0.98"
    unfolding m_def by linarith
  have y: "side = ''YES'' \<and> opposite_avg = avg_price (no (position om)) \<longrightarrow>
            can_buy (position om) side q (m * 0.95) = Inr True"
  proof (intro impI, elim conjE)
    assume sd: "side = ''YES''" and o: "opposite_avg = avg_price (no (position om))"
    have cy: "cur = yes (position om)" using sd by (simp add: cur_def target_side_position_def)
    have "can_buy (position om) side q (m * 0.95)
            = Inr (avg_price (add_position (yes (position om)) q (m * 0.95))
                     + avg_price (no (position om)) < 0.98)"
      using pos by (intro can_buy_YES_eq) (simp_all add: sd upper_YES cy [symmetric])
    also have "\<dots> = Inr True" using below unfolding cy o by simp
    finally show "can_buy (position om) side q (m * 0.95) = Inr True" .
  qed
  have no: "side = ''NO'' \<and> opposite_avg = avg_price (yes (position om)) \<longrightarrow>
            can_buy (position om) side q (m * 0.95) = Inr True"
  proof (intro impI, elim conjE)
    assume sd: "side = ''NO''" and o: "opposite_avg = avg_price (yes (position om))"
    have cn: "cur = no (position om)" using sd by (simp add: cur_def target_side_position_def)
    have "can_buy (position om) side q (m * 0.95)
            = Inr (avg_price (add_position (no (position om)) q (m * 0.95))
                     + avg_price (yes (position om)) < 0.98)"
      using pos by (intro can_buy_NO_eq) (simp_all add: sd upper_NO cn [symmetric])
    also have "\<dots> = Inr True" using below unfolding cn o by simp
    finally show "can_buy (position om) side q (m * 0.95) = Inr True" .
  qed
  show ?thesis using below y no unfolding tp cur_def by blast
qed

theorem target_price_preserves_admission_witness:
  "avg_price (add_position (yes (ledger 100 45 100 50)) 100
      (calculate_target_price (OrderManager_init (ledger 100 45 100 50)) ''YES'' 0.50))
     + 0.50 < 0.98
   \<and> can_buy (ledger 100 45 100 50) ''YES'' 100
       (calculate_target_price (OrderManager_init (ledger 100 45 100 50)) ''YES'' 0.50) = Inr True"
  using target_price_preserves_admission
          [of "OrderManager_init (ledger 100 45 100 50)" "''YES''" "0.50" 100]
  by (simp add: target_side_position_def OrderManager_init_def ledger_def avg_price_def)


section \<open>The risk controller\<close>

lemma not_profitable_if_valid_unhedged:
  assumes "valid_position pos" "unhedged_side pos = Some s"
  shows "\<not> is_profitable pos"
  using assms
  by (auto simp: is_profitable_def min_qty_def valid_position_def valid_side_def unhedged_side_def
           min_def split: if_splits)

lemma check_profitable:
  "is_profitable pos \<Longrightarrow> check_stop_conditions rc pos ob e clk = (profit_locked_result pos, rc)"
  by (simp add: check_stop_conditions_def)

lemma check_unhedged:
  assumes "\<not> is_profitable pos" "unhedged_side pos = Some s"
  shows "check_stop_conditions rc pos ob e clk =
     (let rc1 = update_unhedged_clock rc s clk in
      case unhedged_start_time rc1 of
        None \<Rightarrow> (capital_and_settlement_checks rc1 pos e clk, rc1)
      | Some start \<Rightarrow>
          if now_elapsed clk - start > of_int (max_unhedged_seconds rc1)
          then (unhedged_timeout_result s (now_elapsed clk - start) (max_unhedged_seconds rc1), rc1)
          else (capital_and_settlement_checks rc1 pos e clk, rc1))"
  using assms
  by (auto simp: check_stop_conditions_def unhedged_side_def Let_def split: if_splits option.splits)

lemma check_not_unhedged:
  assumes "\<not> is_profitable pos" "unhedged_side pos = None"
  shows "check_stop_conditions rc pos ob e clk =
     (let rc1 = rc\<lparr>unhedged_start_time := None, last_unhedged_side := None\<rparr> in
      if ob \<noteq> None \<and> qty (yes pos) > 0 \<and> qty (no pos) > 0
            \<and> avg_price (yes pos) + avg_price (no pos) > max_pair_cost rc1
      then (pair_cost_result pos (max_pair_cost rc1), rc1)
      else (capital_and_settlement_checks rc1 pos e clk, rc1))"
  using assms
  by (auto simp: check_stop_conditions_def unhedged_side_def Let_def split: if_splits)

lemma update_clock_side:
  "last_unhedged_side (update_unhedged_clock rc s clk) = Some s"
  by (simp add: update_unhedged_clock_def)

lemma update_clock_flip:
  "last_unhedged_side rc \<noteq> Some s \<Longrightarrow>
   update_unhedged_clock rc s clk
     = rc\<lparr>unhedged_start_time := Some (now_restart clk), last_unhedged_side := Some s\<rparr>"
  by (simp add: update_unhedged_clock_def)

lemma update_clock_idem:
  "update_unhedged_clock (update_unhedged_clock rc s clk) s clk' = update_unhedged_clock rc s clk"
  by (simp add: update_unhedged_clock_def)

lemma capital_checks_cong:
  assumes "max_total_capital a = max_total_capital b"
      and "max_pos_per_window a = max_pos_per_window b"
      and "settlement_buffer_seconds a = settlement_buffer_seconds b"
  shows "capital_and_settlement_checks a pos e clk = capital_and_settlement_checks b pos e clk"
  using assms by (cases e) (simp_all add: capital_and_settlement_checks_def Let_def)

lemma capital_checks_clock_free:
  "capital_and_settlement_checks (rc\<lparr>unhedged_start_time := a, last_unhedged_side := b\<rparr>) pos e clk
     = capital_and_settlement_checks rc pos e clk"
  by (rule capital_checks_cong) simp_all

lemma capital_checks_update_clock:
  "capital_and_settlement_checks (update_unhedged_clock rc s clk') pos e clk
     = capital_and_settlement_checks rc pos e clk"
  by (rule capital_checks_cong) (simp_all add: update_unhedged_clock_def)

lemma snd_check_unhedged:
  assumes "\<not> is_profitable pos" "unhedged_side pos = Some s"
  shows "snd (check_stop_conditions rc pos ob e clk) = update_unhedged_clock rc s clk"
  using assms by (simp add: check_unhedged Let_def split: option.splits)

text \<open>
  Claim C7. Take two consecutive calls on ledgers with non-negative quantities, the first
  unhedged on one side and the second unhedged on the other. After the second call the
  clock starts at the time the second call read, the recorded side is the new one, and the
  outcome of the second call is computed from the duration since that restart alone: no
  field written by the first call enters it.
\<close>

theorem unhedged_clock_restarts_on_flip:
  assumes v1: "valid_position pos1" and v2: "valid_position pos2"
      and u1: "unhedged_side pos1 = Some s1" and u2: "unhedged_side pos2 = Some s2"
      and flip: "s1 \<noteq> s2"
      and c1: "check_stop_conditions rc pos1 ob1 e1 clk1 = (r1, rc1)"
      and c2: "check_stop_conditions rc1 pos2 ob2 e2 clk2 = (r2, rc2)"
  shows "unhedged_start_time rc2 = Some (now_restart clk2)
       \<and> last_unhedged_side rc2 = Some s2
       \<and> r2 = (if now_elapsed clk2 - now_restart clk2 > of_int (max_unhedged_seconds rc)
               then unhedged_timeout_result s2 (now_elapsed clk2 - now_restart clk2)
                      (max_unhedged_seconds rc)
               else capital_and_settlement_checks rc pos2 e2 clk2)"
proof -
  have np1: "\<not> is_profitable pos1" and np2: "\<not> is_profitable pos2"
    using v1 u1 v2 u2 by (auto dest: not_profitable_if_valid_unhedged)
  have rc1: "rc1 = update_unhedged_clock rc s1 clk1"
    using snd_check_unhedged [OF np1 u1, of rc ob1 e1 clk1] c1 by simp
  hence side1: "last_unhedged_side rc1 \<noteq> Some s2"
    using flip by (simp add: update_clock_side)
  have upd: "update_unhedged_clock rc1 s2 clk2
      = rc1\<lparr>unhedged_start_time := Some (now_restart clk2), last_unhedged_side := Some s2\<rparr>"
    by (rule update_clock_flip [OF side1])
  have same: "max_unhedged_seconds rc1 = max_unhedged_seconds rc"
    by (simp add: rc1 update_unhedged_clock_def)
  have cap: "capital_and_settlement_checks rc1 pos2 e2 clk2
               = capital_and_settlement_checks rc pos2 e2 clk2"
    by (simp add: rc1 capital_checks_update_clock)
  show ?thesis
    using c2
    by (auto simp: check_unhedged [OF np2 u2] upd same cap capital_checks_clock_free Let_def)
qed

theorem unhedged_clock_restarts_on_flip_witness:
  "unhedged_start_time
     (snd (check_stop_conditions
        (snd (check_stop_conditions RiskController_of_Config (ledger 50 10 0 0) None None
                (clock_at 0)))
        (ledger 0 0 50 10) None None (clock_at 100))) = Some 100
   \<and> last_unhedged_side
     (snd (check_stop_conditions
        (snd (check_stop_conditions RiskController_of_Config (ledger 50 10 0 0) None None
                (clock_at 0)))
        (ledger 0 0 50 10) None None (clock_at 100))) = Some ''NO''"
  using unhedged_clock_restarts_on_flip
          [of "ledger 50 10 0 0" "ledger 0 0 50 10" "''YES''" "''NO''"
              RiskController_of_Config None None "clock_at 0"
              "fst (check_stop_conditions RiskController_of_Config (ledger 50 10 0 0) None None
                      (clock_at 0))"
              "snd (check_stop_conditions RiskController_of_Config (ledger 50 10 0 0) None None
                      (clock_at 0))"
              None None "clock_at 100"
              "fst (check_stop_conditions
                 (snd (check_stop_conditions RiskController_of_Config (ledger 50 10 0 0) None None
                         (clock_at 0)))
                 (ledger 0 0 50 10) None None (clock_at 100))"
              "snd (check_stop_conditions
                 (snd (check_stop_conditions RiskController_of_Config (ledger 50 10 0 0) None None
                         (clock_at 0)))
                 (ledger 0 0 50 10) None None (clock_at 100))"]
  by (simp add: valid_position_def valid_side_def unhedged_side_def ledger_def clock_at_def)

text \<open>
  Claim C8. A second call on the state the first call left, with the same ledger, order
  book, settlement time and clock readings, returns the same result and leaves the state as
  the first call left it.
\<close>

theorem check_stop_conditions_idempotent:
  "check_stop_conditions (snd (check_stop_conditions rc pos ob e clk)) pos ob e clk
     = check_stop_conditions rc pos ob e clk"
proof (cases "is_profitable pos")
  case True
  then show ?thesis by (simp add: check_profitable)
next
  case np: False
  show ?thesis
  proof (cases "unhedged_side pos")
    case None
    show ?thesis
      by (auto simp: check_not_unhedged [OF np None] Let_def capital_checks_clock_free)
  next
    case (Some s)
    have s: "snd (check_stop_conditions rc pos ob e clk) = update_unhedged_clock rc s clk"
      by (rule snd_check_unhedged [OF np Some])
    show ?thesis
      unfolding s by (simp add: check_unhedged [OF np Some] update_clock_idem)
  qed
qed

theorem check_stop_conditions_idempotent_witness:
  "unhedged_start_time
     (snd (check_stop_conditions
        (snd (check_stop_conditions RiskController_of_Config (ledger 50 10 0 0) None None
                (clock_at 7)))
        (ledger 50 10 0 0) None None (clock_at 7))) = Some 7"
  using check_stop_conditions_idempotent
          [of RiskController_of_Config "ledger 50 10 0 0" None None "clock_at 7"]
  by (simp add: check_stop_conditions_def is_profitable_def min_qty_def total_cost_def
        update_unhedged_clock_def RiskController_of_Config_def RiskController_init_def
        ledger_def clock_at_def Let_def split: option.splits)

text \<open>
  Claim C4 fails on the code. The comment above the pair-cost check says that the realized
  pair cost of a hedged ledger is to be checked strictly, and the check reads nothing of
  the order book; yet it sits behind the test that an order book was supplied. A hedged
  ledger with averages 0.60 and 0.50 (pair cost 1.10, not profitable) passes every check
  when no order book is given, and is stopped for its pair cost as soon as one is given,
  whatever it holds.
\<close>

theorem pair_cost_check_skipped_without_orderbook:
  "fst (check_stop_conditions RiskController_of_Config (ledger 100 60 100 50) None None
          (clock_at 0)) = continue_result
   \<and> \<not> should_stop (fst (check_stop_conditions RiskController_of_Config (ledger 100 60 100 50)
                             None None (clock_at 0)))
   \<and> \<not> is_profitable (ledger 100 60 100 50)
   \<and> avg_price (yes (ledger 100 60 100 50)) + avg_price (no (ledger 100 60 100 50))
       > max_pair_cost RiskController_of_Config
   \<and> fst (check_stop_conditions RiskController_of_Config (ledger 100 60 100 50)
            (Some \<lparr>yes_bids = [], yes_asks = [], no_bids = [], no_asks = []\<rparr>) None
            (clock_at 0))
       = pair_cost_result (ledger 100 60 100 50) 0.98"
  by (simp add: check_stop_conditions_def is_profitable_def min_qty_def total_cost_def
        RiskController_of_Config_def RiskController_init_def capital_and_settlement_checks_def
        avg_price_def MAX_TOTAL_CAPITAL_def MAX_POS_PER_WINDOW_def MAX_PAIR_COST_def
        continue_result_def pair_cost_result_def ledger_def Let_def)

text \<open>
  With an order book at hand the check holds as the comment says: every hedged ledger that
  is not profitable and whose realized pair cost exceeds \<open>max_pair_cost\<close> is stopped with
  the pair-cost reason, and the clock is cleared.
\<close>

lemma hedged_pair_cost_stop_with_orderbook:
  assumes "0 < qty (yes pos)" and "0 < qty (no pos)" and "\<not> is_profitable pos"
      and "avg_price (yes pos) + avg_price (no pos) > max_pair_cost rc"
  shows "check_stop_conditions rc pos (Some ob) e clk
           = (pair_cost_result pos (max_pair_cost rc), reset rc)
       \<and> should_stop (fst (check_stop_conditions rc pos (Some ob) e clk))"
proof -
  have u: "unhedged_side pos = None" using assms(1,2) by (simp add: unhedged_side_def)
  show ?thesis
    using assms
    by (simp add: check_not_unhedged [OF assms(3) u] Let_def reset_def pair_cost_result_def)
qed

text \<open>
  Claim C3 fails on the code in its first part. \<open>RiskController()\<close> takes 200 as the
  default of \<open>max_pos_per_window\<close>, where \<open>Config.MAX_POS_PER_WINDOW\<close> and the comment
  above the per-side check say 300. A ledger with YES cost 250 and NO cost 50, within 300
  on each side, is stopped by the default controller and passes the configured one.
\<close>

theorem default_cap_is_200:
  "max_pos_per_window RiskController_default = 200
   \<and> MAX_POS_PER_WINDOW = 300
   \<and> fst (check_stop_conditions RiskController_default (ledger 600 250 120 50) ob None clk)
       = max_pos_result ''YES'' 250 200
   \<and> fst (check_stop_conditions RiskController_of_Config (ledger 600 250 120 50) ob None clk)
       = continue_result"
  by (simp add: check_stop_conditions_def is_profitable_def min_qty_def total_cost_def
        RiskController_of_Config_def RiskController_default_def RiskController_init_def
        capital_and_settlement_checks_def ledger_def
        avg_price_def MAX_TOTAL_CAPITAL_def MAX_POS_PER_WINDOW_def MAX_PAIR_COST_def Let_def)

text \<open>
  The rest of claim C3 holds for every cap: when no check of higher priority fires, a side
  whose cost exceeds the cap stops the trading and is named in the result, YES first.
\<close>

lemma per_side_cap_stop:
  assumes "\<not> is_profitable pos"
      and "fst (check_stop_conditions rc pos ob e clk) \<noteq> pair_cost_result pos (max_pair_cost rc)"
      and "\<forall>s d. fst (check_stop_conditions rc pos ob e clk)
                 \<noteq> unhedged_timeout_result s d (max_unhedged_seconds rc)"
      and "\<not> total_cost pos > max_total_capital rc"
  shows "(cost (yes pos) > max_pos_per_window rc \<longrightarrow>
            fst (check_stop_conditions rc pos ob e clk)
              = max_pos_result ''YES'' (cost (yes pos)) (max_pos_per_window rc))
       \<and> (\<not> cost (yes pos) > max_pos_per_window rc \<and> cost (no pos) > max_pos_per_window rc \<longrightarrow>
            fst (check_stop_conditions rc pos ob e clk)
              = max_pos_result ''NO'' (cost (no pos)) (max_pos_per_window rc))"
proof -
  have "fst (check_stop_conditions rc pos ob e clk) = capital_and_settlement_checks rc pos e clk"
  proof (cases "unhedged_side pos")
    case None
    show ?thesis using assms(2)
      by (auto simp: check_not_unhedged [OF assms(1) None] Let_def capital_checks_clock_free
               split: if_splits)
  next
    case (Some s)
    have m: "max_unhedged_seconds (update_unhedged_clock rc s clk) = max_unhedged_seconds rc"
      by (simp add: update_unhedged_clock_def)
    show ?thesis using assms(3)
      by (auto simp: check_unhedged [OF assms(1) Some] Let_def capital_checks_update_clock m
               split: if_splits option.splits)
  qed
  thus ?thesis using assms(4) by (simp add: capital_and_settlement_checks_def)
qed

lemma per_side_cap_scenario:
  "fst (check_stop_conditions RiskController_of_Config (ledger 800 310 120 50) ob None clk)
     = max_pos_result ''YES'' 310 300"
  by (simp add: check_stop_conditions_def is_profitable_def min_qty_def total_cost_def
        RiskController_of_Config_def RiskController_init_def
        capital_and_settlement_checks_def ledger_def
        avg_price_def MAX_TOTAL_CAPITAL_def MAX_POS_PER_WINDOW_def MAX_PAIR_COST_def Let_def)


section \<open>The order execution simulator\<close>

lemma place_no_order:
  assumes "current_orderbook om = Some ob"
      and "get_best_ask ob side = None
           \<or> (\<exists>a. get_best_ask ob side = Some a \<and> max_price < level_price a)"
  shows "place_limit_order om fetched now side q max_price = (Inr None, om)"
  using assms by (auto simp: place_limit_order_def Let_def)

lemma try_fill_fresh:
  assumes "current_orderbook om = Some ob" and "get_best_ask ob side = Some a"
      and "order = \<lparr>order_side = side, order_price = level_price a, order_qty = q,
                     status = PENDING, filled_qty = 0, filled_price = 0,
                     timestamp = now, is_simulated = True\<rparr>"
      and "order' = order\<lparr>status := FILLED, filled_qty := min q (level_qty a),
                            filled_price := level_price a\<rparr>"
  shows "try_fill_order (om\<lparr>pending_orders := pending_orders om @ [order]\<rparr>) order
     = (order',
        om\<lparr>position := (if side = ''YES''
                then (position om)\<lparr>yes := add_position (yes (position om))
                                              (min q (level_qty a)) (level_price a)\<rparr>
                else (position om)\<lparr>no := add_position (no (position om))
                                             (min q (level_qty a)) (level_price a)\<rparr>),
           pending_orders := remove1 order' (pending_orders om @ [order']),
           filled_orders := filled_orders om @ [order'],
           trade_history := trade_history om @ [order']\<rparr>)"
  using assms by (simp add: try_fill_order_def Let_def)

lemma get_best_ask_invalid:
  "upper side \<noteq> ''YES'' \<Longrightarrow> upper side \<noteq> ''NO'' \<Longrightarrow> get_best_ask ob side = None"
  by (simp add: get_best_ask_def)

text \<open>
  What holds of \<open>place_limit_order\<close> with a snapshot at hand. When the side has no resting
  ask, or \<open>max_price\<close> is strictly below the best ask, it returns no order and leaves the
  manager, its ledger included, as it was. Otherwise it returns an order at the best ask
  price, in state FILLED with \<open>filled_qty = min q (best ask quantity)\<close> at the best ask
  price, appended to the filled orders; and for the side strings \<open>YES\<close> and \<open>NO\<close>
  themselves the ledger of that side has received exactly that fill through
  \<open>add_position\<close>.
\<close>

lemma place_limit_order_fill_or_reject:
  assumes "current_orderbook om = Some ob"
  shows "(get_best_ask ob side = None
            \<or> (\<exists>a. get_best_ask ob side = Some a \<and> max_price < level_price a)
          \<longrightarrow> place_limit_order om fetched now side q max_price = (Inr None, om))
       \<and> (\<forall>a. get_best_ask ob side = Some a \<and> \<not> max_price < level_price a \<longrightarrow>
            (\<exists>order om'.
               place_limit_order om fetched now side q max_price = (Inr (Some order), om')
               \<and> order_side order = side \<and> order_qty order = q
               \<and> order_price order = level_price a
               \<and> status order = FILLED
               \<and> filled_qty order = min q (level_qty a)
               \<and> filled_price order = level_price a
               \<and> (side = ''YES'' \<longrightarrow>
                    position om' =
                      (position om)\<lparr>yes := add_position (yes (position om))
                                              (min q (level_qty a)) (level_price a)\<rparr>)
               \<and> (side = ''NO'' \<longrightarrow>
                    position om' =
                      (position om)\<lparr>no := add_position (no (position om))
                                             (min q (level_qty a)) (level_price a)\<rparr>)
               \<and> filled_orders om' = filled_orders om @ [order]))"
proof (intro conjI impI allI)
  assume "get_best_ask ob side = None
          \<or> (\<exists>a. get_best_ask ob side = Some a \<and> max_price < level_price a)"
  thus "place_limit_order om fetched now side q max_price = (Inr None, om)"
    by (rule place_no_order [OF assms])
next
  fix a
  assume h: "get_best_ask ob side = Some a \<and> \<not> max_price < level_price a"
  define order where "order = \<lparr>order_side = side, order_price = level_price a, order_qty = q,
                     status = PENDING, filled_qty = 0, filled_price = 0,
                     timestamp = now, is_simulated = True\<rparr>"
  define order' where "order' = order\<lparr>status := FILLED, filled_qty := min q (level_qty a),
                            filled_price := level_price a\<rparr>"
  have tf: "try_fill_order (om\<lparr>pending_orders := pending_orders om @ [order]\<rparr>) order
     = (order',
        om\<lparr>position := (if side = ''YES''
                then (position om)\<lparr>yes := add_position (yes (position om))
                                              (min q (level_qty a)) (level_price a)\<rparr>
                else (position om)\<lparr>no := add_position (no (position om))
                                             (min q (level_qty a)) (level_price a)\<rparr>),
           pending_orders := remove1 order' (pending_orders om @ [order']),
           filled_orders := filled_orders om @ [order'],
           trade_history := trade_history om @ [order']\<rparr>)"
    using h by (intro try_fill_fresh [OF assms _ order_def order'_def]) simp
  have "place_limit_order om fetched now side q max_price
          = (Inr (Some order'),
             snd (try_fill_order (om\<lparr>pending_orders := pending_orders om @ [order]\<rparr>) order))"
    using assms h tf by (simp add: place_limit_order_def Let_def order_def [symmetric])
  thus "\<exists>order om'.
               place_limit_order om fetched now side q max_price = (Inr (Some order), om')
               \<and> order_side order = side \<and> order_qty order = q
               \<and> order_price order = level_price a
               \<and> status order = FILLED
               \<and> filled_qty order = min q (level_qty a)
               \<and> filled_price order = level_price a
               \<and> (side = ''YES'' \<longrightarrow>
                    position om' =
                      (position om)\<lparr>yes := add_position (yes (position om))
                                              (min q (level_qty a)) (level_price a)\<rparr>)
               \<and> (side = ''NO'' \<longrightarrow>
                    position om' =
                      (position om)\<lparr>no := add_position (no (position om))
                                             (min q (level_qty a)) (level_price a)\<rparr>)
               \<and> filled_orders om' = filled_orders om @ [order]"
    unfolding tf by (simp add: order'_def order_def)
qed

text \<open>
  Claim C6 fails on the code. \<open>get_best_ask\<close> normalises the case of the side, as
  \<open>can_buy\<close> does, so the side \<open>yes\<close> is priced and filled at the best YES ask; but
  \<open>_try_fill_order\<close> compares the side with \<open>YES\<close> exactly and books every other side on
  NO. On an empty ledger with the best YES ask 100 units at 0.42,
  \<open>place_limit_order("yes", 100, 0.45)\<close> returns an order FILLED with 100 units at 0.42
  and the ledger holds them on NO, the YES side still empty; the same call with \<open>YES\<close>
  books them on YES.
\<close>

theorem place_limit_order_books_yes_on_no:
  "get_best_ask (quote_book 0.40 0.42 0.56 0.58) ''yes''
     = Some \<lparr>level_price = 0.42, level_qty = 100\<rparr>
   \<and> can_buy PairPosition_init ''yes'' 100 0.42 = Inr True
   \<and> map_sum id (map_option (\<lambda>order. (status order, filled_qty order, filled_price order)))
       (fst (place_limit_order (update_orderbook (OrderManager_init PairPosition_init)
               (quote_book 0.40 0.42 0.56 0.58)) None 0 ''yes'' 100 0.45))
       = Inr (Some (FILLED, 100, 0.42))
   \<and> position (snd (place_limit_order (update_orderbook (OrderManager_init PairPosition_init)
                       (quote_book 0.40 0.42 0.56 0.58)) None 0 ''yes'' 100 0.45))
       = ledger 0 0 100 42
   \<and> position (snd (place_limit_order (update_orderbook (OrderManager_init PairPosition_init)
                       (quote_book 0.40 0.42 0.56 0.58)) None 0 ''YES'' 100 0.45))
       = ledger 100 42 0 0"
  by (simp add: place_limit_order_def try_fill_order_def update_orderbook_def
        OrderManager_init_def PairPosition_init_def Position_init_def quote_book_def
        get_best_ask_def can_buy_def avg_price_def add_position_def ledger_def
        upper_def upper_char_def Let_def)

text \<open>
  Claim C9 as stated fails for \<open>place_limit_order\<close>: for a side outside YES and NO the
  order book has no best ask, and the call returns the absent result.
\<close>

theorem place_limit_order_invalid_side_returns_none:
  "fst (place_limit_order (update_orderbook (OrderManager_init PairPosition_init)
           (quote_book 0.41 0.42 0.57 0.58)) None 0 ''MAYBE'' 100 0.50) = Inr None
   \<and> fst (place_limit_order (update_orderbook (OrderManager_init PairPosition_init)
           (quote_book 0.41 0.42 0.57 0.58)) None 0 ''MAYBE'' 100 0.50)
       \<noteq> Inl (ValueError ''MAYBE'')"
  by (simp add: place_limit_order_def update_orderbook_def OrderManager_init_def get_best_ask_def
        upper_def upper_char_def Let_def)

text \<open>
  Claim C9, amended. For every side that normalises to neither YES nor NO, \<open>can_buy\<close>
  fails fast with the error that carries the side, while \<open>place_limit_order\<close> returns the
  absent result without raising and leaves the ledger as it was (the whole manager, when a
  snapshot was at hand).
\<close>

theorem invalid_side_handling:
  assumes "upper side \<noteq> ''YES''" and "upper side \<noteq> ''NO''"
  shows "can_buy pos side q p = Inl (ValueError side)
       \<and> fst (place_limit_order om fetched now side q max_price) = Inr None
       \<and> position (snd (place_limit_order om fetched now side q max_price)) = position om
       \<and> (current_orderbook om \<noteq> None \<longrightarrow>
            place_limit_order om fetched now side q max_price = (Inr None, om))"
  using assms
  by (auto simp: can_buy_def place_limit_order_def get_best_ask_invalid Let_def
           split: option.splits)

theorem invalid_side_handling_witness:
  "can_buy PairPosition_init ''maybe'' 100 0.40 = Inl (ValueError ''maybe'')
   \<and> fst (place_limit_order (OrderManager_init PairPosition_init)
            (Some (quote_book 0.41 0.42 0.57 0.58)) 0 ''maybe'' 100 0.50) = Inr None"
  using invalid_side_handling
          [of "''maybe''" PairPosition_init 100 "0.40" "OrderManager_init PairPosition_init"
              "Some (quote_book 0.41 0.42 0.57 0.58)" 0 "0.50"]
  by (simp add: upper_def upper_char_def)

end
